theory Spec2Isabelle
  imports Main "HOL-Library.Sublist"
begin

section \<open>Python values, exceptions and the library interface\<close>

text \<open>
  The program is one Python module, \<^verbatim>\<open>app.py\<close>, with two functions:
  \<^verbatim>\<open>extract_content_from_url\<close> (the Extractor) and \<^verbatim>\<open>call_gemini_api\<close>
  (the Summarizer). Both are glue over library calls (\<^verbatim>\<open>requests\<close>,
  \<^verbatim>\<open>bs4\<close>, \<^verbatim>\<open>urllib\<close>). The library calls whose behaviour is
  decided outside the module are fields of the record \<open>env\<close>; every one of them may
  raise, so each returns a sum with the exception on the left.

  Strings are \<open>string\<close>: lists of characters with code points below 256.
\<close>

text \<open>
  Values that the configuration file and a decoded JSON body can hold: \<^verbatim>\<open>None\<close>,
  booleans, integers, strings, lists and dictionaries with string keys (as an association
  list read with \<open>map_of\<close>). Floating point numbers are left out.
\<close>

datatype pyval =
    PNone
  | PBool bool
  | PInt int
  | PStr string
  | PList "pyval list"
  | PDict "(string \<times> pyval) list"

text \<open>Python's truth value of an object, as \<^verbatim>\<open>if x\<close> and \<^verbatim>\<open>not x\<close> test it.\<close>

fun truthy :: "pyval \<Rightarrow> bool" where
  "truthy PNone = False"
| "truthy (PBool b) = b"
| "truthy (PInt i) = (i \<noteq> 0)"
| "truthy (PStr s) = (s \<noteq> [])"
| "truthy (PList xs) = (xs \<noteq> [])"
| "truthy (PDict kvs) = (kvs \<noteq> [])"

text \<open>
  Exceptions. The built-in ones raised by subscripting and attribute access are
  constructors of their own; \<open>Raised m\<close> is an exception raised inside a library call.
  What \<^verbatim>\<open>str(e)\<close> prints is the interpreter's business: it is the field
  \<open>str_exn\<close> of the environment.
\<close>

datatype exn =
    KeyError pyval
  | IndexError
  | TypeError
  | AttributeError
  | ValueError string
  | Raised string

text \<open>Sequencing of steps that may raise: the first exception ends the block.\<close>

fun bind_exn :: "exn + 'a \<Rightarrow> ('a \<Rightarrow> exn + 'b) \<Rightarrow> exn + 'b" where
  "bind_exn (Inl e) f = Inl e"
| "bind_exn (Inr x) f = f x"

text \<open>An HTTP response object: the status, the body, and the URL after redirects.\<close>

record response =
  status_code :: nat
  content :: string
  final_url :: string

text \<open>A network call the program makes: the method, the URL, the body, the headers, the timeout.\<close>

datatype request =
    GET string nat
  | POST string pyval "(string \<times> string) list" nat

text \<open>
  The HTML document as \<^verbatim>\<open>bs4\<close> holds it: a tree of tags and strings. Every
  node carries the identity of its Python object (a number), since the program keeps
  references to nodes while it removes others. \<open>NavigableString\<close> is a text node;
  \<open>Comment\<close> stands for the string classes that text extraction leaves out
  (comments, doctype and other declarations).
\<close>

datatype element =
    Tag nat string "(string \<times> string) list" "element list"
  | NavigableString nat string
  | Comment nat string

record env =
  requests_get :: "string \<Rightarrow> nat \<Rightarrow> exn + response"
  requests_post :: "string \<Rightarrow> pyval \<Rightarrow> (string \<times> string) list \<Rightarrow> nat \<Rightarrow> exn + response"
  raise_for_status :: "response \<Rightarrow> exn option"
  response_json :: "response \<Rightarrow> exn + pyval"
  BeautifulSoup :: "string \<Rightarrow> exn + element"
  requests_compat_urljoin :: "string \<Rightarrow> string \<Rightarrow> exn + string"
  str_exn :: "exn \<Rightarrow> string"
  str_value :: "pyval \<Rightarrow> string"

text \<open>\<^verbatim>\<open>sep.join(xs)\<close> on a list of strings.\<close>

fun join :: "string \<Rightarrow> string list \<Rightarrow> string" where
  "join sep [] = []"
| "join sep [x] = x"
| "join sep (x # y # ys) = x @ sep @ join sep (y # ys)"

section \<open>The Summarizer: \<^verbatim>\<open>call_gemini_api\<close>\<close>

subsection \<open>The credential (line 6)\<close>

text \<open>
  \<^verbatim>\<open>d.get(k, default)\<close>: defined on dictionaries; any other value has no
  attribute \<^verbatim>\<open>get\<close>.
\<close>

fun dict_get :: "pyval \<Rightarrow> string \<Rightarrow> pyval \<Rightarrow> exn + pyval" where
  "dict_get (PDict kvs) k d = Inr (case map_of kvs k of None \<Rightarrow> d | Some v \<Rightarrow> v)"
| "dict_get PNone k d = Inl AttributeError"
| "dict_get (PBool b) k d = Inl AttributeError"
| "dict_get (PInt i) k d = Inl AttributeError"
| "dict_get (PStr s) k d = Inl AttributeError"
| "dict_get (PList xs) k d = Inl AttributeError"

text \<open>
  \<^verbatim>\<open>gemini_api_key = st.secrets.get("gemini", {}).get("api_key", None)\<close>, evaluated
  once when the module is loaded; \<open>secrets\<close> is the table of the configuration file.
\<close>

definition gemini_api_key :: "(string \<times> pyval) list \<Rightarrow> exn + pyval" where
  "gemini_api_key secrets =
     bind_exn (dict_get (PDict secrets) ''gemini'' (PDict []))
       (\<lambda>section. dict_get section ''api_key'' PNone)"

subsection \<open>The prompt (lines 15 to 31)\<close>

text \<open>
  The f-string of line 15 formats the credential with \<^verbatim>\<open>str\<close>: a string is
  itself, any other value is printed by the interpreter.
\<close>

definition format_value :: "env \<Rightarrow> pyval \<Rightarrow> string" where
  "format_value E v = (case v of PStr s \<Rightarrow> s | _ \<Rightarrow> str_value E v)"

definition gemini_url :: "env \<Rightarrow> pyval \<Rightarrow> string" where
  "gemini_url E key =
     ''https://generativelanguage.googleapis.com/v1beta/models/gemini-2.0-flash:generateContent?key=''
       @ format_value E key"

definition combined_input :: "string \<Rightarrow> string list \<Rightarrow> string" where
  "combined_input text images =
     ''Web Page Content:\<newline>'' @
     text @
     ''\<newline>\<newline>Images:\<newline>'' @
     (if images \<noteq> [] then join '', '' images else ''None'') @
     ''\<newline>\<newline>Please provide a brief summary of the above content.''"

definition payload :: "string \<Rightarrow> string list \<Rightarrow> pyval" where
  "payload text images =
     PDict [(''contents'',
       PList [PDict [(''parts'', PList [PDict [(''text'', PStr (combined_input text images))]])]])]"

definition headers :: "(string \<times> string) list" where
  "headers = [(''Content-Type'', ''application/json'')]"

subsection \<open>Reading the response (lines 36 to 41)\<close>

text \<open>\<^verbatim>\<open>k in x\<close> for a string \<open>k\<close>: key membership in a dictionary, element
  membership in a list, substring test on a string, a TypeError on anything else.\<close>

fun contains_str :: "string \<Rightarrow> pyval \<Rightarrow> exn + bool" where
  "contains_str k (PDict kvs) = Inr (map_of kvs k \<noteq> None)"
| "contains_str k (PList xs) = Inr (PStr k \<in> set xs)"
| "contains_str k (PStr s) = Inr (sublist k s)"
| "contains_str k PNone = Inl TypeError"
| "contains_str k (PBool b) = Inl TypeError"
| "contains_str k (PInt i) = Inl TypeError"

text \<open>\<^verbatim>\<open>x[k]\<close> for a string \<open>k\<close>: a dictionary looks the key up (KeyError when
  it is missing); no other value can be subscripted with a string.\<close>

fun getitem_str :: "pyval \<Rightarrow> string \<Rightarrow> exn + pyval" where
  "getitem_str (PDict kvs) k =
     (case map_of kvs k of None \<Rightarrow> Inl (KeyError (PStr k)) | Some v \<Rightarrow> Inr v)"
| "getitem_str PNone k = Inl TypeError"
| "getitem_str (PBool b) k = Inl TypeError"
| "getitem_str (PInt i) k = Inl TypeError"
| "getitem_str (PStr s) k = Inl TypeError"
| "getitem_str (PList xs) k = Inl TypeError"

text \<open>\<^verbatim>\<open>x[0]\<close>: the first element of a list, the first character of a string
  (IndexError when empty); a dictionary with string keys has no key \<open>0\<close>; nothing else
  can be subscripted.\<close>

fun getitem_0 :: "pyval \<Rightarrow> exn + pyval" where
  "getitem_0 (PList []) = Inl IndexError"
| "getitem_0 (PList (x # xs)) = Inr x"
| "getitem_0 (PStr []) = Inl IndexError"
| "getitem_0 (PStr (c # cs)) = Inr (PStr [c])"
| "getitem_0 (PDict kvs) = Inl (KeyError (PInt 0))"
| "getitem_0 PNone = Inl TypeError"
| "getitem_0 (PBool b) = Inl TypeError"
| "getitem_0 (PInt i) = Inl TypeError"

text \<open>Lines 38 to 41. Python's \<^verbatim>\<open>and\<close> evaluates its right operand only when
  the left one is true.\<close>

definition read_summary :: "pyval \<Rightarrow> exn + pyval" where
  "read_summary data =
     bind_exn (contains_str ''candidates'' data) (\<lambda>present.
     bind_exn (if present then bind_exn (getitem_str data ''candidates'') (\<lambda>c. Inr (truthy c))
               else Inr False) (\<lambda>nonempty.
     if nonempty then
       bind_exn (getitem_str data ''candidates'') (\<lambda>candidates.
       bind_exn (getitem_0 candidates) (\<lambda>candidate.
       bind_exn (getitem_str candidate ''content'') (\<lambda>cont.
       bind_exn (getitem_str cont ''parts'') (\<lambda>parts.
       bind_exn (getitem_0 parts) (\<lambda>part.
       getitem_str part ''text'')))))
     else Inr (PStr ''No summary returned from Gemini API.'')))"

subsection \<open>The function (lines 8 to 43)\<close>

text \<open>The body of the \<^verbatim>\<open>try\<close> block, lines 34 to 41.\<close>

definition gemini_try :: "env \<Rightarrow> pyval \<Rightarrow> string \<Rightarrow> string list \<Rightarrow> exn + pyval" where
  "gemini_try E key text images =
     bind_exn (requests_post E (gemini_url E key) (payload text images) headers 30) (\<lambda>response.
     case raise_for_status E response of
       Some e \<Rightarrow> Inl e
     | None \<Rightarrow> bind_exn (response_json E response) read_summary)"

text \<open>
  \<open>call_gemini_api E key text images\<close>: \<open>key\<close> is the module's global
  \<^verbatim>\<open>gemini_api_key\<close>. The result is the returned value together with the network
  calls made, in order.
\<close>

definition call_gemini_api :: "env \<Rightarrow> pyval \<Rightarrow> string \<Rightarrow> string list \<Rightarrow> pyval \<times> request list" where
  "call_gemini_api E key text images =
     (if \<not> truthy key then
        (PStr ''Gemini API key not found. Please check your config.toml file.'', [])
      else
        (case gemini_try E key text images of
           Inr summary \<Rightarrow> summary
         | Inl e \<Rightarrow> PStr (''Error calling Gemini API: '' @ str_exn E e),
         [POST (gemini_url E key) (payload text images) headers 30]))"

section \<open>The Extractor: \<^verbatim>\<open>extract_content_from_url\<close>\<close>

subsection \<open>The document tree\<close>

text \<open>The identity of a node's Python object.\<close>

fun ident :: "element \<Rightarrow> nat" where
  "ident (Tag i n a cs) = i"
| "ident (NavigableString i s) = i"
| "ident (Comment i s) = i"

text \<open>
  Modelled from the spec: \<^verbatim>\<open>bs4\<close> is not part of the repository. The nodes below
  an element in document order (\<^verbatim>\<open>Tag.descendants\<close>): each child, followed by what
  is below it.
\<close>

fun descendants :: "element \<Rightarrow> element list" where
  "descendants (Tag i n a cs) = concat (map (\<lambda>c. c # descendants c) cs)"
| "descendants (NavigableString i s) = []"
| "descendants (Comment i s) = []"

text \<open>A tag whose name is one of \<open>names\<close>.\<close>

fun named :: "string list \<Rightarrow> element \<Rightarrow> bool" where
  "named names (Tag i n a cs) = (n \<in> set names)"
| "named names (NavigableString i s) = False"
| "named names (Comment i s) = False"

text \<open>
  Modelled from the spec: \<^verbatim>\<open>soup(names)\<close> and \<^verbatim>\<open>soup.find_all(name)\<close> of
  \<^verbatim>\<open>bs4\<close>, absent from the repository: the tags below the root with one of the
  names, in document order, as a list built before the loop runs.
\<close>

definition find_all :: "string list \<Rightarrow> element \<Rightarrow> element list" where
  "find_all names soup = filter (named names) (descendants soup)"

text \<open>The tree without the node of identity \<open>i\<close> (and all below it).\<close>

fun remove_node :: "nat \<Rightarrow> element \<Rightarrow> element" where
  "remove_node i (Tag j n a cs) =
     Tag j n a (map (remove_node i) (filter (\<lambda>c. ident c \<noteq> i) cs))"
| "remove_node i (NavigableString j s) = NavigableString j s"
| "remove_node i (Comment j s) = Comment j s"

text \<open>
  Modelled from the spec: \<^verbatim>\<open>tag.decompose()\<close> of \<^verbatim>\<open>bs4\<close>, absent from the
  repository: the tag object is taken out of the tree it is in and destroyed. The tree is
  passed explicitly and returned updated; a tag that is no longer in the tree (it was
  below one removed earlier) leaves the tree as it is.
\<close>

definition decompose :: "element \<Rightarrow> element \<Rightarrow> element" where
  "decompose tag soup = remove_node (ident tag) soup"

text \<open>Python's \<^verbatim>\<open>str.isspace\<close> on the code points below 256.\<close>

definition isspace :: "char \<Rightarrow> bool" where
  "isspace c = (c \<in> set [CHR 0x09, CHR 0x0A, CHR 0x0B, CHR 0x0C, CHR 0x0D, CHR 0x1C,
     CHR 0x1D, CHR 0x1E, CHR 0x1F, CHR 0x20, CHR 0x85, CHR 0xA0])"

text \<open>\<^verbatim>\<open>s.strip()\<close>: whitespace removed at both ends.\<close>

definition strip :: "string \<Rightarrow> string" where
  "strip s = rev (dropWhile isspace (rev (dropWhile isspace s)))"

text \<open>The text of a text node; the other nodes have none.\<close>

fun text_of :: "element \<Rightarrow> string list" where
  "text_of (NavigableString i s) = [s]"
| "text_of (Tag i n a cs) = []"
| "text_of (Comment i s) = []"

text \<open>
  Modelled from the spec: \<^verbatim>\<open>soup.stripped_strings\<close> of \<^verbatim>\<open>bs4\<close>, absent from
  the repository: the text nodes below the root in document order, each stripped of
  surrounding whitespace, those that become empty left out.
\<close>

definition stripped_strings :: "element \<Rightarrow> string list" where
  "stripped_strings soup =
     filter (\<lambda>s. s \<noteq> []) (map strip (concat (map text_of (descendants soup))))"

text \<open>
  Modelled from the spec: \<^verbatim>\<open>tag.get(key)\<close> of \<^verbatim>\<open>bs4\<close>, absent from the
  repository: the value of the attribute, \<^verbatim>\<open>None\<close> when the tag has none of that
  name.
\<close>

fun get :: "element \<Rightarrow> string \<Rightarrow> string option" where
  "get (Tag i n a cs) key = map_of a key"
| "get (NavigableString i s) key = None"
| "get (Comment i s) key = None"

subsection \<open>The function (lines 46 to 69)\<close>

text \<open>The loop of lines 61 to 65: \<open>images\<close> is the list built so far.\<close>

fun collect_images :: "env \<Rightarrow> string \<Rightarrow> element list \<Rightarrow> string list \<Rightarrow> exn + string list" where
  "collect_images E url [] images = Inr images"
| "collect_images E url (img # imgs) images =
     (case get img ''src'' of
        None \<Rightarrow> collect_images E url imgs images
      | Some src \<Rightarrow>
          if src \<noteq> [] then
            bind_exn (requests_compat_urljoin E url src) (\<lambda>absolute_url.
              collect_images E url imgs (images @ [absolute_url]))
          else collect_images E url imgs images)"

text \<open>The body of the \<^verbatim>\<open>try\<close> block, lines 51 to 67.\<close>

definition extract_try :: "env \<Rightarrow> string \<Rightarrow> exn + string \<times> string list" where
  "extract_try E url =
     bind_exn (requests_get E url 10) (\<lambda>response.
     case raise_for_status E response of
       Some e \<Rightarrow> Inl e
     | None \<Rightarrow>
         bind_exn (BeautifulSoup E (content response)) (\<lambda>parsed.
         let soup = fold decompose (find_all [''script'', ''style''] parsed) parsed;
             text = join '' '' (stripped_strings soup)
         in bind_exn (collect_images E url (find_all [''img''] soup) []) (\<lambda>images.
              Inr (text, images))))"

definition extract_content_from_url :: "env \<Rightarrow> string \<Rightarrow> string \<times> string list" where
  "extract_content_from_url E url =
     (case extract_try E url of
        Inr result \<Rightarrow> result
      | Inl e \<Rightarrow> (''Error: '' @ str_exn E e, []))"

section \<open>URL resolution: \<^verbatim>\<open>urljoin\<close>\<close>

text \<open>
  Modelled from the spec: \<^verbatim>\<open>requests.compat.urljoin\<close> is \<^verbatim>\<open>urllib.parse.urljoin\<close>
  of Python's standard library, which is not part of the repository. Every definition of
  this section models that module (CPython 3.11), function by function, for \<^verbatim>\<open>str\<close>
  arguments and \<^verbatim>\<open>allow_fragments=True\<close>. Two checks of the library need the
  \<^verbatim>\<open>ipaddress\<close> module and the Unicode normalisation tables; they are parameters.
\<close>

record urllib =
  check_bracketed_host :: "string \<Rightarrow> exn option"
  checknetloc_unicode :: "string \<Rightarrow> exn option"

definition uses_relative :: "string list" where
  "uses_relative = ['''', ''ftp'', ''http'', ''gopher'', ''nntp'', ''imap'',
     ''wais'', ''file'', ''https'', ''shttp'', ''mms'',
     ''prospero'', ''rtsp'', ''rtsps'', ''rtspu'', ''sftp'',
     ''svn'', ''svn+ssh'', ''ws'', ''wss'']"

definition uses_netloc :: "string list" where
  "uses_netloc = ['''', ''ftp'', ''http'', ''gopher'', ''nntp'', ''telnet'',
     ''imap'', ''wais'', ''file'', ''mms'', ''https'', ''shttp'',
     ''snews'', ''prospero'', ''rtsp'', ''rtsps'', ''rtspu'', ''rsync'',
     ''svn'', ''svn+ssh'', ''sftp'', ''nfs'', ''git'', ''git+ssh'',
     ''ws'', ''wss'']"

definition uses_params :: "string list" where
  "uses_params = ['''', ''ftp'', ''hdl'', ''prospero'', ''http'', ''imap'',
     ''https'', ''shttp'', ''rtsp'', ''rtsps'', ''rtspu'', ''sip'',
     ''sips'', ''mms'', ''sftp'', ''tel'']"

definition ascii_lowercase :: string where
  "ascii_lowercase = ''abcdefghijklmnopqrstuvwxyz''"

definition ascii_uppercase :: string where
  "ascii_uppercase = ''ABCDEFGHIJKLMNOPQRSTUVWXYZ''"

definition scheme_chars :: string where
  "scheme_chars = ascii_lowercase @ ascii_uppercase @ ''0123456789'' @ ''+-.''"

text \<open>The characters of \<^verbatim>\<open>_WHATWG_C0_CONTROL_OR_SPACE\<close>: code points 0 to 32.\<close>

definition c0_control_or_space :: "char \<Rightarrow> bool" where
  "c0_control_or_space c = ((of_char c :: nat) \<le> 32)"

text \<open>The characters of \<^verbatim>\<open>_UNSAFE_URL_BYTES_TO_REMOVE\<close>: tab, carriage return, newline.\<close>

definition unsafe_url_byte :: "char \<Rightarrow> bool" where
  "unsafe_url_byte c = (c \<in> set [CHR 0x09, CHR 0x0D, CHR 0x0A])"

text \<open>\<^verbatim>\<open>c.isascii() and c.isalpha()\<close>.\<close>

definition ascii_alpha :: "char \<Rightarrow> bool" where
  "ascii_alpha c = (c \<in> set (ascii_lowercase @ ascii_uppercase))"

text \<open>\<^verbatim>\<open>s.isascii()\<close>.\<close>

definition isascii :: "string \<Rightarrow> bool" where
  "isascii s = list_all (\<lambda>c. (of_char c :: nat) < 128) s"

text \<open>\<^verbatim>\<open>s.lower()\<close>, used on scheme names only (characters of \<open>scheme_chars\<close>).\<close>

definition lower :: "string \<Rightarrow> string" where
  "lower s = map (\<lambda>c. case map_of (zip ascii_uppercase ascii_lowercase) c of
                          None \<Rightarrow> c | Some l \<Rightarrow> l) s"

text \<open>\<^verbatim>\<open>s.split(sep)\<close> for a separator of one character.\<close>

fun split :: "char \<Rightarrow> string \<Rightarrow> string list" where
  "split sep [] = [[]]"
| "split sep (c # cs) =
     (if c = sep then [] # split sep cs
      else (case split sep cs of
              [] \<Rightarrow> [[c]]
            | part # parts \<Rightarrow> (c # part) # parts))"

text \<open>\<^verbatim>\<open>s.split(sep, 1)\<close> when \<open>sep\<close> occurs in \<open>s\<close>: the text before the first
  occurrence and the text after it.\<close>

definition split_once :: "char \<Rightarrow> string \<Rightarrow> string \<times> string" where
  "split_once sep s = (takeWhile (\<lambda>c. c \<noteq> sep) s, tl (dropWhile (\<lambda>c. c \<noteq> sep) s))"

text \<open>\<^verbatim>\<open>_splitnetloc(url, 2)\<close>: the text from index 2 to the first of \<open>/ ? #\<close>, and
  the rest from that delimiter.\<close>

definition splitnetloc :: "string \<Rightarrow> string \<times> string" where
  "splitnetloc url =
     (takeWhile (\<lambda>c. c \<notin> set ''/?#'') (drop 2 url),
      dropWhile (\<lambda>c. c \<notin> set ''/?#'') (drop 2 url))"

text \<open>\<^verbatim>\<open>_checknetloc\<close>: nothing to check on an empty or ASCII netloc.\<close>

definition checknetloc :: "urllib \<Rightarrow> string \<Rightarrow> exn option" where
  "checknetloc L netloc =
     (if netloc = [] \<or> isascii netloc then None else checknetloc_unicode L netloc)"

text \<open>The scheme test of \<^verbatim>\<open>urlsplit\<close>: a colon at a position after the first, a
  first character that is an ASCII letter, and only scheme characters before the colon.\<close>

definition has_scheme :: "string \<Rightarrow> bool" where
  "has_scheme url =
     (case url of
        [] \<Rightarrow> False
      | c # cs \<Rightarrow>
          CHR '':'' \<in> set url \<and> c \<noteq> CHR '':'' \<and> ascii_alpha c \<and>
          list_all (\<lambda>d. d \<in> set scheme_chars) (takeWhile (\<lambda>d. d \<noteq> CHR '':'') url))"

text \<open>The end of \<^verbatim>\<open>urlsplit\<close>: fragment, query, the netloc check, the result.\<close>

definition urlsplit_rest ::
  "urllib \<Rightarrow> string \<Rightarrow> string \<Rightarrow> string \<Rightarrow> exn + string \<times> string \<times> string \<times> string \<times> string" where
  "urlsplit_rest L scheme netloc url =
     (let (url1, fragment) = (if CHR ''#'' \<in> set url then split_once CHR ''#'' url else (url, []));
          (url2, query) = (if CHR ''?'' \<in> set url1 then split_once CHR ''?'' url1 else (url1, []))
      in case checknetloc L netloc of
           Some e \<Rightarrow> Inl e
         | None \<Rightarrow> Inr (scheme, netloc, url2, query, fragment))"

text \<open>
  Modelled from the spec: \<^verbatim>\<open>urllib.parse.urlsplit\<close> of the standard library, absent
  from the repository. The result is (scheme, netloc, path, query, fragment).
\<close>

definition urlsplit ::
  "urllib \<Rightarrow> string \<Rightarrow> string \<Rightarrow> exn + string \<times> string \<times> string \<times> string \<times> string" where
  "urlsplit L url0 scheme0 =
     (let url1 = filter (\<lambda>c. \<not> unsafe_url_byte c) (dropWhile c0_control_or_space url0);
          scheme1 = filter (\<lambda>c. \<not> unsafe_url_byte c)
                      (rev (dropWhile c0_control_or_space
                         (rev (dropWhile c0_control_or_space scheme0))));
          (scheme, url) =
            (if has_scheme url1
             then (lower (takeWhile (\<lambda>c. c \<noteq> CHR '':'') url1),
                   tl (dropWhile (\<lambda>c. c \<noteq> CHR '':'') url1))
             else (scheme1, url1))
      in if take 2 url = ''//'' then
           (let (netloc, rest) = splitnetloc url
            in if (CHR ''['' \<in> set netloc \<and> CHR '']'' \<notin> set netloc) \<or>
                  (CHR '']'' \<in> set netloc \<and> CHR ''['' \<notin> set netloc)
               then Inl (ValueError ''Invalid IPv6 URL'')
               else
                 (case (if CHR ''['' \<in> set netloc \<and> CHR '']'' \<in> set netloc
                        then check_bracketed_host L
                               (takeWhile (\<lambda>c. c \<noteq> CHR '']'')
                                  (tl (dropWhile (\<lambda>c. c \<noteq> CHR ''['') netloc)))
                        else None) of
                    Some e \<Rightarrow> Inl e
                  | None \<Rightarrow> urlsplit_rest L scheme netloc rest))
         else urlsplit_rest L scheme [] url)"

text \<open>\<^verbatim>\<open>_splitparams\<close>, called on a path that holds a semicolon: the parameters are
  what follows the first semicolon of the last path segment.\<close>

definition splitparams :: "string \<Rightarrow> string \<times> string" where
  "splitparams url =
     (if CHR ''/'' \<in> set url then
        (let last_segment = rev (takeWhile (\<lambda>c. c \<noteq> CHR ''/'') (rev url));
             before = take (length url - length last_segment) url
         in if CHR '';'' \<notin> set last_segment then (url, [])
            else (before @ takeWhile (\<lambda>c. c \<noteq> CHR '';'') last_segment,
                  tl (dropWhile (\<lambda>c. c \<noteq> CHR '';'') last_segment)))
      else split_once CHR '';'' url)"

text \<open>
  Modelled from the spec: \<^verbatim>\<open>urllib.parse.urlparse\<close> of the standard library, absent
  from the repository. The result is (scheme, netloc, path, params, query, fragment).
\<close>

definition urlparse ::
  "urllib \<Rightarrow> string \<Rightarrow> string \<Rightarrow>
     exn + string \<times> string \<times> string \<times> string \<times> string \<times> string" where
  "urlparse L url0 scheme0 =
     bind_exn (urlsplit L url0 scheme0) (\<lambda>(scheme, netloc, url, query, fragment).
       let (path, params) =
             (if scheme \<in> set uses_params \<and> CHR '';'' \<in> set url then splitparams url
              else (url, []))
       in Inr (scheme, netloc, path, params, query, fragment))"

text \<open>
  Modelled from the spec: \<^verbatim>\<open>urllib.parse.urlunsplit\<close> of the standard library, absent
  from the repository.
\<close>

definition urlunsplit :: "string \<times> string \<times> string \<times> string \<times> string \<Rightarrow> string" where
  "urlunsplit components =
     (case components of (scheme, netloc, url0, query, fragment) \<Rightarrow>
        let url1 = (if netloc \<noteq> [] \<or> (scheme \<noteq> [] \<and> scheme \<in> set uses_netloc) \<or>
                       take 2 url0 = ''//''
                    then ''//'' @ netloc @
                         (if url0 \<noteq> [] \<and> take 1 url0 \<noteq> ''/'' then ''/'' @ url0 else url0)
                    else url0);
            url2 = (if scheme \<noteq> [] then scheme @ '':'' @ url1 else url1);
            url3 = (if query \<noteq> [] then url2 @ ''?'' @ query else url2)
        in if fragment \<noteq> [] then url3 @ ''#'' @ fragment else url3)"

text \<open>
  Modelled from the spec: \<^verbatim>\<open>urllib.parse.urlunparse\<close> of the standard library, absent
  from the repository.
\<close>

definition urlunparse ::
  "string \<times> string \<times> string \<times> string \<times> string \<times> string \<Rightarrow> string" where
  "urlunparse components =
     (case components of (scheme, netloc, url, params, query, fragment) \<Rightarrow>
        urlunsplit (scheme, netloc,
          (if params \<noteq> [] then url @ '';'' @ params else url), query, fragment))"

text \<open>The assignment \<^verbatim>\<open>segments[1:-1] = filter(None, segments[1:-1])\<close>: the empty
  segments between the first and the last are dropped.\<close>

fun drop_inner_empty :: "string list \<Rightarrow> string list" where
  "drop_inner_empty [] = []"
| "drop_inner_empty [s] = [s]"
| "drop_inner_empty (s # t # ts) =
     s # filter (\<lambda>x. x \<noteq> []) (butlast (t # ts)) @ [last (t # ts)]"

text \<open>The loop over the segments: \<open>..\<close> pops the last resolved segment (nothing to pop
  is ignored), \<open>.\<close> is skipped, any other segment is appended.\<close>

fun resolve_segments :: "string list \<Rightarrow> string list \<Rightarrow> string list" where
  "resolve_segments [] resolved_path = resolved_path"
| "resolve_segments (seg # segs) resolved_path =
     (if seg = ''..'' then resolve_segments segs (butlast resolved_path)
      else if seg = ''.'' then resolve_segments segs resolved_path
      else resolve_segments segs (resolved_path @ [seg]))"

text \<open>The path of the joined URL, from the base path and a non-empty relative path.\<close>

definition join_paths :: "string \<Rightarrow> string \<Rightarrow> string" where
  "join_paths bpath path =
     (let parts = split CHR ''/'' bpath;
          base_parts = (if last parts \<noteq> [] then butlast parts else parts);
          segments = (if take 1 path = ''/'' then split CHR ''/'' path
                      else drop_inner_empty (base_parts @ split CHR ''/'' path));
          resolved = resolve_segments segments [];
          resolved_path = (if last segments \<in> set [''.'', ''..''] then resolved @ [[]]
                           else resolved);
          joined = join ''/'' resolved_path
      in if joined \<noteq> [] then joined else ''/'')"

text \<open>
  Modelled from the spec: \<^verbatim>\<open>urllib.parse.urljoin\<close> of the standard library (reached
  as \<^verbatim>\<open>requests.compat.urljoin\<close>), absent from the repository; the spec says that it
  resolves a \<^verbatim>\<open>src\<close> against the page URL into an absolute URL.
\<close>

definition urljoin :: "urllib \<Rightarrow> string \<Rightarrow> string \<Rightarrow> exn + string" where
  "urljoin L base url =
     (if base = [] then Inr url
      else if url = [] then Inr base
      else
        bind_exn (urlparse L base []) (\<lambda>(bscheme, bnetloc, bpath, bparams, bquery, bfragment).
        bind_exn (urlparse L url bscheme) (\<lambda>(scheme, netloc, path, params, query, fragment).
          if scheme \<noteq> bscheme \<or> scheme \<notin> set uses_relative then Inr url
          else if scheme \<in> set uses_netloc \<and> netloc \<noteq> [] then
            Inr (urlunparse (scheme, netloc, path, params, query, fragment))
          else
            (let netloc1 = (if scheme \<in> set uses_netloc then bnetloc else netloc)
             in if path = [] \<and> params = [] then
                  Inr (urlunparse (scheme, netloc1, bpath, bparams,
                         (if query = [] then bquery else query), fragment))
                else
                  Inr (urlunparse (scheme, netloc1, join_paths bpath path,
                         params, query, fragment))))))"

section \<open>The page content as the specification describes it\<close>

text \<open>
  Section 4.1 of the specification describes the result of an extraction in terms of the
  document: all \<^verbatim>\<open>script\<close> and \<^verbatim>\<open>style\<close> elements are removed, the remaining
  non-empty text nodes are joined with single spaces in document order, and every
  \<^verbatim>\<open>img\<close> element with a non-empty \<^verbatim>\<open>src\<close> gives one image, in document order.
  The definitions of this section follow those words; the theorems compare them with
  what the function computes.
\<close>

text \<open>The document without its script and style elements.\<close>

fun without_script_style :: "element \<Rightarrow> element" where
  "without_script_style (Tag i n a cs) =
     Tag i n a (map without_script_style
       (filter (\<lambda>c. \<not> named [''script'', ''style''] c) cs))"
| "without_script_style (NavigableString i s) = NavigableString i s"
| "without_script_style (Comment i s) = Comment i s"

text \<open>The text nodes of a document, in document order.\<close>

fun text_nodes :: "element \<Rightarrow> string list" where
  "text_nodes (Tag i n a cs) = concat (map text_nodes cs)"
| "text_nodes (NavigableString i s) = [s]"
| "text_nodes (Comment i s) = []"

text \<open>The visible text: the stripped, non-empty text nodes that remain, joined by one space.\<close>

definition visible_text :: "element \<Rightarrow> string" where
  "visible_text doc =
     join '' '' (filter (\<lambda>s. s \<noteq> []) (map strip (text_nodes (without_script_style doc))))"

text \<open>The \<^verbatim>\<open>img\<close> elements of a document, in document order.\<close>

fun img_elements :: "element \<Rightarrow> element list" where
  "img_elements (Tag i n a cs) =
     concat (map (\<lambda>c. (if named [''img''] c then [c] else []) @ img_elements c) cs)"
| "img_elements (NavigableString i s) = []"
| "img_elements (Comment i s) = []"

text \<open>An element with a non-empty \<^verbatim>\<open>src\<close> attribute, and the value of the attribute.\<close>

definition has_src :: "element \<Rightarrow> bool" where
  "has_src e = (case get e ''src'' of None \<Rightarrow> False | Some src \<Rightarrow> src \<noteq> [])"

definition src_of :: "element \<Rightarrow> string" where
  "src_of e = (case get e ''src'' of None \<Rightarrow> [] | Some src \<Rightarrow> src)"

text \<open>The children of a node (\<^verbatim>\<open>.contents\<close>).\<close>

fun contents :: "element \<Rightarrow> element list" where
  "contents (Tag i n a cs) = cs"
| "contents (NavigableString i s) = []"
| "contents (Comment i s) = []"

text \<open>An element whose only content is inside script tags: every text node of it that is
  not blank lies below a script element.\<close>

fun script_only :: "element \<Rightarrow> bool" where
  "script_only (Tag i n a cs) = (n = ''script'' \<or> list_all script_only cs)"
| "script_only (NavigableString i s) = (strip s = [])"
| "script_only (Comment i s) = True"

text \<open>A node that is a tag, not a string.\<close>

fun is_tag :: "element \<Rightarrow> bool" where
  "is_tag (Tag i n a cs) = True"
| "is_tag (NavigableString i s) = False"
| "is_tag (Comment i s) = False"

text \<open>
  The shape of the documents that \<^verbatim>\<open>html.parser\<close> builds: the content of a script
  or style element is read as text, so no tag stands below one.
\<close>

fun raw_text_elements :: "element \<Rightarrow> bool" where
  "raw_text_elements (Tag i n a cs) =
     ((n \<in> set [''script'', ''style''] \<longrightarrow> list_all (\<lambda>c. \<not> is_tag c) cs)
      \<and> list_all raw_text_elements cs)"
| "raw_text_elements (NavigableString i s) = True"
| "raw_text_elements (Comment i s) = True"

text \<open>The non-empty \<^verbatim>\<open>src\<close> values of the \<^verbatim>\<open>img\<close> elements that remain, in
  document order.\<close>

definition image_sources :: "element \<Rightarrow> string list" where
  "image_sources doc = map src_of (filter has_src (img_elements (without_script_style doc)))"

text \<open>
  What the parser returns: the document object, which is a tag, over nodes that are
  distinct Python objects.
\<close>

definition parsed_document :: "element \<Rightarrow> bool" where
  "parsed_document doc = (is_tag doc \<and> distinct (map ident (descendants doc)))"

text \<open>The tree without the nodes whose identity is in \<open>S\<close>: what is left after
  \<open>remove_node\<close> has run for each of them.\<close>

fun remove_nodes :: "nat set \<Rightarrow> element \<Rightarrow> element" where
  "remove_nodes S (Tag j n a cs) =
     Tag j n a (map (remove_nodes S) (filter (\<lambda>c. ident c \<notin> S) cs))"
| "remove_nodes S (NavigableString j s) = NavigableString j s"
| "remove_nodes S (Comment j s) = Comment j s"

section \<open>A test double for the libraries, and example pages\<close>

definition no_checks :: urllib where
  "no_checks = \<lparr>check_bracketed_host = (\<lambda>hostname. None),
                 checknetloc_unicode = (\<lambda>netloc. None)\<rparr>"

text \<open>
  An environment whose requests all get the same reply, whose decoded JSON body and parsed
  document are given, and whose status check raises on the codes 400 to 599.
\<close>

definition mock_env :: "(exn + response) \<Rightarrow> (exn + pyval) \<Rightarrow> (exn + element) \<Rightarrow> env" where
  "mock_env reply body parsed = \<lparr>
     requests_get = (\<lambda>url timeout. reply),
     requests_post = (\<lambda>url data hdrs timeout. reply),
     raise_for_status = (\<lambda>r. if 400 \<le> status_code r \<and> status_code r < 600
                               then Some (Raised ''HTTPError'') else None),
     response_json = (\<lambda>r. body),
     BeautifulSoup = (\<lambda>markup. parsed),
     requests_compat_urljoin = urljoin no_checks,
     str_exn = (\<lambda>e. case e of
                       Raised m \<Rightarrow> m
                     | ValueError m \<Rightarrow> m
                     | KeyError k \<Rightarrow> ''KeyError''
                     | IndexError \<Rightarrow> ''IndexError''
                     | TypeError \<Rightarrow> ''TypeError''
                     | AttributeError \<Rightarrow> ''AttributeError''),
     str_value = (\<lambda>v. ''value'')\<rparr>"

definition ok_response :: "string \<Rightarrow> response" where
  "ok_response url = \<lparr>status_code = 200, content = ''<html>'', final_url = url\<rparr>"

definition example_page :: element where
  "example_page =
     Tag 0 ''[document]'' []
       [Tag 1 ''html'' []
          [Tag 2 ''head'' []
             [Tag 3 ''script'' [] [NavigableString 4 ''var x = 1;''],
              Tag 5 ''style'' [] [NavigableString 6 ''p { }'']],
           Tag 7 ''body'' []
             [Tag 8 ''p'' [] [NavigableString 9 ''  Hello ''],
              NavigableString 10 '' '',
              Tag 11 ''img'' [(''src'', ''../a.png'')] [],
              Tag 12 ''img'' [(''alt'', ''no source'')] [],
              Tag 13 ''img'' [(''src'', '''')] [],
              Tag 14 ''img'' [(''src'', ''../a.png'')] [],
              Tag 15 ''p'' [] [NavigableString 16 ''world'', Comment 17 ''note'']]]]"

text \<open>A page with one paragraph and one image whose source is not a valid URL.\<close>

definition malformed_src_page :: element where
  "malformed_src_page =
     Tag 0 ''[document]'' []
       [Tag 1 ''p'' [] [NavigableString 2 ''Hello''],
        Tag 3 ''img'' [(''src'', ''//['')] []]"

definition script_page :: element where
  "script_page =
     Tag 0 ''[document]'' []
       [Tag 1 ''script'' [] [NavigableString 2 ''alert(1)''],
        NavigableString 3 [CHR 0x0A],
        Tag 4 ''div'' [] [Tag 5 ''script'' [] [NavigableString 6 ''alert(2)'']]]"

section \<open>The Summarizer's results\<close>

text \<open>
  C3. When no API credential is configured (the configuration has no \<^verbatim>\<open>gemini\<close>
  section, or the section has no \<^verbatim>\<open>api_key\<close> entry), the module's credential is
  \<^verbatim>\<open>None\<close>, and for every text and every image list \<^verbatim>\<open>call_gemini_api\<close>
  returns exactly the string "Gemini API key not found. Please check your config.toml file."
  and makes no network call.
\<close>

theorem no_credential_configured:
  assumes "map_of secrets ''gemini'' = None
     \<or> (\<exists>g. map_of secrets ''gemini'' = Some (PDict g) \<and> map_of g ''api_key'' = None)"
  shows "gemini_api_key secrets = Inr PNone
     \<and> call_gemini_api E PNone text images =
         (PStr ''Gemini API key not found. Please check your config.toml file.'', [])"
  using assms by (auto simp: gemini_api_key_def call_gemini_api_def)

theorem no_credential_configured_witness:
  "map_of [(''other'', PInt 1)] ''gemini'' = None
     \<and> gemini_api_key [(''other'', PInt 1)] = Inr PNone
     \<and> call_gemini_api (mock_env (Inl (Raised ''unreachable'')) (Inl (Raised ''no body''))
           (Inl (Raised ''no page''))) PNone ''page text'' [''https://x.com/a.png''] =
         (PStr ''Gemini API key not found. Please check your config.toml file.'', [])"
proof -
  have absent: "map_of [(''other'', PInt 1)] ''gemini'' = None"
    by simp
  then have "map_of [(''other'', PInt 1)] ''gemini'' = None
     \<or> (\<exists>g. map_of [(''other'', PInt 1)] ''gemini'' = Some (PDict g) \<and> map_of g ''api_key'' = None)"
    by (rule disjI1)
  from absent no_credential_configured [OF this] show ?thesis
    by blast
qed

text \<open>
  C10. Whenever the credential is a falsy value (the empty string as well as an absent
  key), \<^verbatim>\<open>call_gemini_api\<close> returns the "Gemini API key not found. ..." message for
  every text and image list and makes no network request; the result is the one of a
  missing credential.
\<close>

theorem falsy_credential:
  assumes "\<not> truthy key"
  shows "call_gemini_api E key text images =
           (PStr ''Gemini API key not found. Please check your config.toml file.'', [])
     \<and> call_gemini_api E key text images = call_gemini_api E PNone text images"
  using assms by (simp add: call_gemini_api_def)

theorem falsy_credential_witness:
  "\<not> truthy (PStr '''')
     \<and> gemini_api_key [(''gemini'', PDict [(''api_key'', PStr '''')])] = Inr (PStr '''')
     \<and> call_gemini_api (mock_env (Inl (Raised ''unreachable'')) (Inl (Raised ''no body''))
           (Inl (Raised ''no page''))) (PStr '''') ''page text'' [] =
         (PStr ''Gemini API key not found. Please check your config.toml file.'', [])
     \<and> call_gemini_api (mock_env (Inl (Raised ''unreachable'')) (Inl (Raised ''no body''))
           (Inl (Raised ''no page''))) (PStr '''') ''page text'' [] =
         call_gemini_api (mock_env (Inl (Raised ''unreachable'')) (Inl (Raised ''no body''))
           (Inl (Raised ''no page''))) PNone ''page text'' []"
proof -
  have falsy: "\<not> truthy (PStr '''')"
    by simp
  have key: "gemini_api_key [(''gemini'', PDict [(''api_key'', PStr '''')])] = Inr (PStr '''')"
    by (simp add: gemini_api_key_def)
  from falsy key falsy_credential [OF falsy] show ?thesis
    by blast
qed

text \<open>
  C7. For every text: with an empty image list the prompt contains "Images:" followed by a
  newline and "None"; with a non-empty image list it contains the image URLs joined with
  ", "; and in every case it contains the whole text. The prompt is the text that the
  request to the API carries.
\<close>

theorem prompt_contents:
  "sublist ''Images:\<newline>None'' (combined_input text [])
     \<and> (images \<noteq> [] \<longrightarrow> sublist (join '', '' images) (combined_input text images))
     \<and> sublist text (combined_input text images)
     \<and> (truthy key \<longrightarrow>
          snd (call_gemini_api E key text images) =
            [POST (gemini_url E key)
               (PDict [(''contents'', PList [PDict [(''parts'',
                  PList [PDict [(''text'', PStr (combined_input text images))]])]])])
               [(''Content-Type'', ''application/json'')] 30])"
proof -
  have posted: "snd (call_gemini_api E key text images) =
      [POST (gemini_url E key)
         (PDict [(''contents'', PList [PDict [(''parts'',
            PList [PDict [(''text'', PStr (combined_input text images))]])]])])
         [(''Content-Type'', ''application/json'')] 30]" if "truthy key"
    using that by (simp add: call_gemini_api_def payload_def headers_def)
  have none: "sublist ''Images:\<newline>None'' (combined_input text [])"
    unfolding sublist_def combined_input_def
    by (intro exI [of _ "''Web Page Content:\<newline>'' @ text @ ''\<newline>\<newline>''"]
          exI [of _ "''\<newline>\<newline>Please provide a brief summary of the above content.''"]) simp
  have urls: "sublist (join '', '' images) (combined_input text images)" if "images \<noteq> []"
    unfolding sublist_def combined_input_def using that
    by (intro exI [of _ "''Web Page Content:\<newline>'' @ text @ ''\<newline>\<newline>Images:\<newline>''"]
          exI [of _ "''\<newline>\<newline>Please provide a brief summary of the above content.''"]) simp
  have full: "sublist text (combined_input text images)"
    unfolding sublist_def combined_input_def
    by (intro exI [of _ "''Web Page Content:\<newline>''"]
          exI [of _ "''\<newline>\<newline>Images:\<newline>''
             @ (if images \<noteq> [] then join '', '' images else ''None'')
             @ ''\<newline>\<newline>Please provide a brief summary of the above content.''"]) simp
  from none urls full posted show ?thesis by blast
qed

theorem prompt_contents_witness:
  "sublist ''Images:\<newline>None'' (combined_input ''Hello world'' [])
     \<and> join '', '' [''https://x.com/a.png'', ''https://x.com/b.png'']
           = ''https://x.com/a.png, https://x.com/b.png''
     \<and> sublist ''https://x.com/a.png, https://x.com/b.png''
           (combined_input ''Hello world'' [''https://x.com/a.png'', ''https://x.com/b.png''])
     \<and> sublist ''Hello world''
           (combined_input ''Hello world'' [''https://x.com/a.png'', ''https://x.com/b.png''])"
proof -
  have joined: "join '', '' [''https://x.com/a.png'', ''https://x.com/b.png'']
                  = ''https://x.com/a.png, https://x.com/b.png''"
    by simp
  have nonempty: "[''https://x.com/a.png'', ''https://x.com/b.png''] \<noteq> []"
    by simp
  from prompt_contents [of "''Hello world''" "[''https://x.com/a.png'', ''https://x.com/b.png'']"]
    nonempty joined show ?thesis
    by metis
qed

text \<open>
  C4. On an HTTP success whose JSON body is an object: when \<^verbatim>\<open>candidates\<close> is a
  non-empty array whose first candidate has the expected shape, the result is the first
  candidate's generated text; when the \<^verbatim>\<open>candidates\<close> key is absent or the array is
  empty, the result is exactly "No summary returned from Gemini API.".
\<close>

theorem summary_from_candidates:
  assumes "truthy key"
    and "requests_post E (gemini_url E key) (payload text images) headers 30 = Inr r"
    and "raise_for_status E r = None"
    and "response_json E r = Inr (PDict body)"
  shows "(map_of body ''candidates'' = Some (PList (PDict cand # rest))
          \<and> map_of cand ''content'' = Some (PDict cont)
          \<and> map_of cont ''parts'' = Some (PList (PDict part # parts))
          \<and> map_of part ''text'' = Some t
          \<longrightarrow> fst (call_gemini_api E key text images) = t)
     \<and> (map_of body ''candidates'' = None \<or> map_of body ''candidates'' = Some (PList [])
          \<longrightarrow> fst (call_gemini_api E key text images)
                = PStr ''No summary returned from Gemini API.'')"
  using assms by (auto simp: call_gemini_api_def gemini_try_def read_summary_def)

text \<open>
  C5. With a credential configured, every exception of the summarization request is
  caught and the result is "Error calling Gemini API: " followed by the exception's
  message: an exception of the POST itself (network error, timeout), of the status check,
  of decoding the JSON body, and of reading a body of an unexpected shape.
\<close>

theorem summarizer_failures:
  assumes "truthy key"
  shows "(requests_post E (gemini_url E key) (payload text images) headers 30 = Inl e
          \<longrightarrow> fst (call_gemini_api E key text images)
                = PStr (''Error calling Gemini API: '' @ str_exn E e))
     \<and> (requests_post E (gemini_url E key) (payload text images) headers 30 = Inr r
          \<and> raise_for_status E r = Some e
          \<longrightarrow> fst (call_gemini_api E key text images)
                = PStr (''Error calling Gemini API: '' @ str_exn E e))
     \<and> (requests_post E (gemini_url E key) (payload text images) headers 30 = Inr r
          \<and> raise_for_status E r = None \<and> response_json E r = Inl e
          \<longrightarrow> fst (call_gemini_api E key text images)
                = PStr (''Error calling Gemini API: '' @ str_exn E e))
     \<and> (requests_post E (gemini_url E key) (payload text images) headers 30 = Inr r
          \<and> raise_for_status E r = None \<and> response_json E r = Inr data
          \<and> read_summary data = Inl e
          \<longrightarrow> fst (call_gemini_api E key text images)
                = PStr (''Error calling Gemini API: '' @ str_exn E e))"
  using assms by (auto simp: call_gemini_api_def gemini_try_def)

text \<open>The two results above on the test double.\<close>

lemma mock_post:
  "requests_post (mock_env reply body parsed) u p h t = reply"
  "response_json (mock_env reply body parsed) r = body"
  "raise_for_status (mock_env reply body parsed) (ok_response u) = None"
  "str_exn (mock_env reply body parsed) (Raised m) = m"
  "str_exn (mock_env reply body parsed) (KeyError k) = ''KeyError''"
  by (simp_all add: mock_env_def ok_response_def)

theorem summary_from_candidates_witness:
  "truthy (PStr ''secret'')
   \<and> fst (call_gemini_api
        (mock_env (Inr (ok_response ''https://api''))
           (Inr (PDict [(''candidates'',
              PList [PDict [(''content'',
                PDict [(''parts'', PList [PDict [(''text'', PStr ''A summary.'')]]),
                       (''role'', PStr ''model'')])]])]))
           (Inl (Raised ''unused'')))
        (PStr ''secret'') ''Hello world'' []) = PStr ''A summary.''
   \<and> fst (call_gemini_api
        (mock_env (Inr (ok_response ''https://api'')) (Inr (PDict [(''candidates'', PList [])]))
           (Inl (Raised ''unused'')))
        (PStr ''secret'') ''Hello world'' []) = PStr ''No summary returned from Gemini API.''
   \<and> fst (call_gemini_api
        (mock_env (Inr (ok_response ''https://api'')) (Inr (PDict [(''promptFeedback'', PDict [])]))
           (Inl (Raised ''unused'')))
        (PStr ''secret'') ''Hello world'' []) = PStr ''No summary returned from Gemini API.''"
proof -
  let ?part = "[(''text'', PStr ''A summary.'')]"
  let ?cont = "[(''parts'', PList [PDict ?part]), (''role'', PStr ''model'')]"
  let ?cand = "[(''content'', PDict ?cont)]"
  let ?full = "[(''candidates'', PList [PDict ?cand])]"
  let ?empty = "[(''candidates'', PList [])]"
  let ?absent = "[(''promptFeedback'', PDict [])]"
  let ?r = "ok_response ''https://api''"
  have key: "truthy (PStr ''secret'')"
    by simp
  have shape: "map_of ?full ''candidates'' = Some (PList (PDict ?cand # []))
      \<and> map_of ?cand ''content'' = Some (PDict ?cont)
      \<and> map_of ?cont ''parts'' = Some (PList (PDict ?part # []))
      \<and> map_of ?part ''text'' = Some (PStr ''A summary.'')"
    by simp
  have no_candidates: "map_of ?empty ''candidates'' = Some (PList [])"
    by simp
  have no_key: "map_of ?absent ''candidates'' = None"
    by simp
  from summary_from_candidates
      [of "PStr ''secret''" "mock_env (Inr ?r) (Inr (PDict ?full)) (Inl (Raised ''unused''))"
          "''Hello world''" "[]" ?r ?full ?cand "[]" ?cont ?part "[]" "PStr ''A summary.''",
       OF key mock_post(1) mock_post(3) mock_post(2)] shape
  have first: "fst (call_gemini_api (mock_env (Inr ?r) (Inr (PDict ?full)) (Inl (Raised ''unused'')))
      (PStr ''secret'') ''Hello world'' []) = PStr ''A summary.''"
    by blast
  from summary_from_candidates
      [of "PStr ''secret''" "mock_env (Inr ?r) (Inr (PDict ?empty)) (Inl (Raised ''unused''))"
          "''Hello world''" "[]" ?r ?empty ?cand "[]" ?cont ?part "[]" "PStr ''A summary.''",
       OF key mock_post(1) mock_post(3) mock_post(2)] no_candidates
  have second: "fst (call_gemini_api (mock_env (Inr ?r) (Inr (PDict ?empty)) (Inl (Raised ''unused'')))
      (PStr ''secret'') ''Hello world'' []) = PStr ''No summary returned from Gemini API.''"
    by blast
  from summary_from_candidates
      [of "PStr ''secret''" "mock_env (Inr ?r) (Inr (PDict ?absent)) (Inl (Raised ''unused''))"
          "''Hello world''" "[]" ?r ?absent ?cand "[]" ?cont ?part "[]" "PStr ''A summary.''",
       OF key mock_post(1) mock_post(3) mock_post(2)] no_key
  have third: "fst (call_gemini_api (mock_env (Inr ?r) (Inr (PDict ?absent)) (Inl (Raised ''unused'')))
      (PStr ''secret'') ''Hello world'' []) = PStr ''No summary returned from Gemini API.''"
    by blast
  from key first second third show ?thesis
    by blast
qed

theorem summarizer_failures_witness:
  "truthy (PStr ''secret'')
   \<and> fst (call_gemini_api
        (mock_env (Inl (Raised ''Read timed out'')) (Inl (Raised ''unused'')) (Inl (Raised ''unused'')))
        (PStr ''secret'') ''Hello world'' [])
      = PStr ''Error calling Gemini API: Read timed out''
   \<and> fst (call_gemini_api
        (mock_env (Inr \<lparr>status_code = 500, content = [], final_url = ''https://api''\<rparr>)
           (Inl (Raised ''unused'')) (Inl (Raised ''unused'')))
        (PStr ''secret'') ''Hello world'' [])
      = PStr ''Error calling Gemini API: HTTPError''
   \<and> fst (call_gemini_api
        (mock_env (Inr (ok_response ''https://api'')) (Inl (Raised ''Expecting value''))
           (Inl (Raised ''unused'')))
        (PStr ''secret'') ''Hello world'' [])
      = PStr ''Error calling Gemini API: Expecting value''
   \<and> read_summary (PDict [(''candidates'', PList [PDict []])]) = Inl (KeyError (PStr ''content''))
   \<and> fst (call_gemini_api
        (mock_env (Inr (ok_response ''https://api''))
           (Inr (PDict [(''candidates'', PList [PDict []])])) (Inl (Raised ''unused'')))
        (PStr ''secret'') ''Hello world'' [])
      = PStr ''Error calling Gemini API: KeyError''"
proof -
  let ?r = "ok_response ''https://api''"
  let ?bad = "\<lparr>status_code = 500, content = [], final_url = ''https://api''\<rparr>"
  let ?shapeless = "PDict [(''candidates'', PList [PDict []])]"
  have key: "truthy (PStr ''secret'')"
    by simp
  have status: "raise_for_status
      (mock_env (Inr ?bad) (Inl (Raised ''unused'')) (Inl (Raised ''unused''))) ?bad
      = Some (Raised ''HTTPError'')"
    by (simp add: mock_env_def)
  have shape: "read_summary ?shapeless = Inl (KeyError (PStr ''content''))"
    by (simp add: read_summary_def)
  from summarizer_failures
      [of "PStr ''secret''"
          "mock_env (Inl (Raised ''Read timed out'')) (Inl (Raised ''unused'')) (Inl (Raised ''unused''))"
          "''Hello world''" "[]" "Raised ''Read timed out''" ?r PNone, OF key]
  have first: "fst (call_gemini_api
      (mock_env (Inl (Raised ''Read timed out'')) (Inl (Raised ''unused'')) (Inl (Raised ''unused'')))
      (PStr ''secret'') ''Hello world'' []) = PStr ''Error calling Gemini API: Read timed out''"
    by (simp add: mock_post)
  from summarizer_failures
      [of "PStr ''secret''"
          "mock_env (Inr ?bad) (Inl (Raised ''unused'')) (Inl (Raised ''unused''))"
          "''Hello world''" "[]" "Raised ''HTTPError''" ?bad PNone, OF key] status
  have second: "fst (call_gemini_api
      (mock_env (Inr ?bad) (Inl (Raised ''unused'')) (Inl (Raised ''unused'')))
      (PStr ''secret'') ''Hello world'' []) = PStr ''Error calling Gemini API: HTTPError''"
    by (simp add: mock_post)
  from summarizer_failures
      [of "PStr ''secret''"
          "mock_env (Inr ?r) (Inl (Raised ''Expecting value'')) (Inl (Raised ''unused''))"
          "''Hello world''" "[]" "Raised ''Expecting value''" ?r PNone, OF key]
  have third: "fst (call_gemini_api
      (mock_env (Inr ?r) (Inl (Raised ''Expecting value'')) (Inl (Raised ''unused'')))
      (PStr ''secret'') ''Hello world'' []) = PStr ''Error calling Gemini API: Expecting value''"
    by (simp add: mock_post)
  from summarizer_failures
      [of "PStr ''secret''"
          "mock_env (Inr ?r) (Inr ?shapeless) (Inl (Raised ''unused''))"
          "''Hello world''" "[]" "KeyError (PStr ''content'')" ?r ?shapeless, OF key] shape
  have fourth: "fst (call_gemini_api
      (mock_env (Inr ?r) (Inr ?shapeless) (Inl (Raised ''unused'')))
      (PStr ''secret'') ''Hello world'' []) = PStr ''Error calling Gemini API: KeyError''"
    by (simp add: mock_post)
  from key first second third shape fourth show ?thesis
    by blast
qed

section \<open>The document tree: removal, text and images\<close>

lemma ident_remove_node: "ident (remove_node i t) = ident t"
  by (cases t) simp_all

lemma remove_nodes_empty: "remove_nodes {} t = t"
  by (induction t) (simp_all add: map_idI)

lemma remove_nodes_remove_node:
  "remove_nodes S (remove_node i t) = remove_nodes (insert i S) t"
proof (induction t)
  case (Tag j n a cs)
  have "map (remove_nodes S)
          (filter (\<lambda>c. ident c \<notin> S) (map (remove_node i) (filter (\<lambda>c. ident c \<noteq> i) cs)))
        = map (remove_nodes (insert i S)) (filter (\<lambda>c. ident c \<notin> insert i S) cs)"
    using Tag.IH
    by (induction cs) (auto simp: ident_remove_node)
  then show ?case by simp
qed simp_all

text \<open>The loop of lines 55 and 56 removes exactly the nodes that were found.\<close>

lemma fold_decompose:
  "fold decompose tags t = remove_nodes (ident ` set tags) t"
proof (induction tags arbitrary: t)
  case Nil
  show ?case by (simp add: remove_nodes_empty)
next
  case (Cons x xs)
  have "fold decompose (x # xs) t = fold decompose xs (decompose x t)"
    by simp
  also have "\<dots> = remove_nodes (ident ` set xs) (decompose x t)"
    by (rule Cons.IH)
  also have "\<dots> = remove_nodes (ident ` set (x # xs)) t"
    by (simp add: decompose_def remove_nodes_remove_node)
  finally show ?case .
qed

lemma descendants_child:
  "c \<in> set cs \<Longrightarrow> c \<in> set (descendants (Tag i n a cs))"
  by auto

lemma descendants_below_child:
  "c \<in> set cs \<Longrightarrow> d \<in> set (descendants c) \<Longrightarrow> d \<in> set (descendants (Tag i n a cs))"
  by auto

lemma remove_nodes_named:
  "(\<And>c. c \<in> set (descendants t) \<Longrightarrow> (ident c \<in> S) = named [''script'', ''style''] c)
     \<Longrightarrow> remove_nodes S t = without_script_style t"
proof (induction t)
  case (Tag j n a cs)
  have same_filter:
    "filter (\<lambda>c. ident c \<notin> S) cs = filter (\<lambda>c. \<not> named [''script'', ''style''] c) cs"
    by (rule filter_cong [OF refl]) (simp add: Tag.prems [OF descendants_child])
  have same_map: "remove_nodes S c = without_script_style c" if "c \<in> set cs" for c
    using that Tag.prems descendants_below_child by (intro Tag.IH) blast+
  show ?case
    by (simp add: same_filter same_map cong: map_cong)
qed simp_all

text \<open>With distinct node objects, a node has the identity of a found tag only if it is
  that tag.\<close>

lemma found_by_identity:
  assumes "distinct (map ident (descendants t))" and "c \<in> set (descendants t)"
  shows "(ident c \<in> ident ` set (find_all names t)) = named names c"
proof
  assume "ident c \<in> ident ` set (find_all names t)"
  then obtain d where d: "d \<in> set (descendants t)" "named names d" "ident d = ident c"
    by (auto simp: find_all_def)
  from assms(1) have "inj_on ident (set (descendants t))"
    by (simp add: distinct_map)
  with d assms(2) have "d = c" by (auto dest: inj_onD)
  with d show "named names c" by simp
next
  assume "named names c"
  with assms(2) show "ident c \<in> ident ` set (find_all names t)"
    by (auto simp: find_all_def)
qed

lemma loop_removes_script_style:
  assumes "distinct (map ident (descendants doc))"
  shows "fold decompose (find_all [''script'', ''style''] doc) doc = without_script_style doc"
  unfolding fold_decompose
  by (rule remove_nodes_named) (rule found_by_identity [OF assms])

lemma concat_map_concat:
  "concat (map f (concat (map g cs))) = concat (map (\<lambda>c. concat (map f (g c))) cs)"
  by (induction cs) simp_all

lemma texts_below:
  "concat (map text_of (descendants t)) = (if is_tag t then text_nodes t else [])"
proof (induction t)
  case (Tag i n a cs)
  have "concat (map text_of (c # descendants c)) = text_nodes c" if "c \<in> set cs" for c
    using Tag.IH [OF that] by (cases c) simp_all
  then have "map (\<lambda>c. concat (map text_of (c # descendants c))) cs = map text_nodes cs"
    by (simp cong: map_cong)
  then show ?case
    by (simp add: concat_map_concat cong: map_cong)
qed simp_all

lemma stripped_strings_text_nodes:
  "is_tag t \<Longrightarrow> stripped_strings t = filter (\<lambda>s. s \<noteq> []) (map strip (text_nodes t))"
  by (simp add: stripped_strings_def texts_below)

lemma is_tag_without_script_style: "is_tag (without_script_style t) = is_tag t"
  by (cases t) simp_all

lemma find_all_img: "find_all [''img''] t = img_elements t"
proof (induction t)
  case (Tag i n a cs)
  have "filter (named [''img'']) (c # descendants c)
          = (if named [''img''] c then [c] else []) @ img_elements c" if "c \<in> set cs" for c
    using Tag.IH [OF that] by (simp add: find_all_def)
  then have "map (\<lambda>c. filter (named [''img'']) (c # descendants c)) cs
          = map (\<lambda>c. (if named [''img''] c then [c] else []) @ img_elements c) cs"
    by (simp cong: map_cong)
  then show ?case
    by (simp add: find_all_def filter_concat o_def cong: map_cong)
qed (simp_all add: find_all_def)

text \<open>The loop of lines 61 to 65 when every resolution succeeds.\<close>

lemma collect_images_resolved:
  "map (\<lambda>img. requests_compat_urljoin E url (src_of img)) (filter has_src imgs) = map Inr resolved
     \<Longrightarrow> collect_images E url imgs images = Inr (images @ resolved)"
proof (induction imgs arbitrary: images resolved)
  case Nil
  then show ?case by simp
next
  case (Cons img imgs)
  show ?case
  proof (cases "has_src img")
    case True
    then obtain src where src: "get img ''src'' = Some src" "src \<noteq> []"
      by (auto simp: has_src_def split: option.splits)
    from True Cons.prems src obtain u us where
      u: "requests_compat_urljoin E url src = Inr u" "resolved = u # us"
         "map (\<lambda>img. requests_compat_urljoin E url (src_of img)) (filter has_src imgs) = map Inr us"
      by (cases resolved) (auto simp: src_of_def)
    from Cons.IH [OF u(3)] src u show ?thesis by simp
  next
    case False
    with Cons.prems have "collect_images E url imgs images = Inr (images @ resolved)"
      by (intro Cons.IH) simp
    with False show ?thesis
      by (auto simp: has_src_def split: option.splits)
  qed
qed

text \<open>The \<^verbatim>\<open>try\<close> block of the Extractor when no step raises.\<close>

lemma extract_try_success:
  assumes "requests_get E url 10 = Inr response"
    and "raise_for_status E response = None"
    and "BeautifulSoup E (content response) = Inr doc"
    and "parsed_document doc"
    and "map (requests_compat_urljoin E url) (image_sources doc) = map Inr resolved"
  shows "extract_try E url = Inr (visible_text doc, resolved)"
proof -
  from assms(4) have tag: "is_tag doc" and dist: "distinct (map ident (descendants doc))"
    by (simp_all add: parsed_document_def)
  have soup: "fold decompose (find_all [''script'', ''style''] doc) doc = without_script_style doc"
    by (rule loop_removes_script_style [OF dist])
  have visible: "join '' '' (stripped_strings (without_script_style doc)) = visible_text doc"
    by (simp add: visible_text_def stripped_strings_text_nodes is_tag_without_script_style tag)
  have images: "collect_images E url (find_all [''img''] (without_script_style doc)) [] = Inr resolved"
    using collect_images_resolved [of E url "img_elements (without_script_style doc)" resolved "[]"]
      assms(5) by (simp add: find_all_img image_sources_def o_def)
  show ?thesis
    by (simp add: extract_try_def assms(1-3) soup visible images)
qed

lemma script_only_blank:
  "script_only c \<Longrightarrow> \<not> named [''script'', ''style''] c
     \<Longrightarrow> s \<in> set (text_nodes (without_script_style c)) \<Longrightarrow> strip s = []"
proof (induction c arbitrary: s)
  case (Tag i n a cs)
  from Tag.prems(3) obtain c where c: "c \<in> set cs" "\<not> named [''script'', ''style''] c"
      "s \<in> set (text_nodes (without_script_style c))"
    by auto
  from Tag.prems(1,2) have "list_all script_only cs"
    by simp
  with c(1) have "script_only c"
    by (simp add: list_all_iff)
  from Tag.IH [OF c(1) this c(2) c(3)] show ?case .
qed simp_all

lemma script_only_no_text:
  assumes "is_tag doc" and "list_all script_only (contents doc)"
  shows "visible_text doc = []"
proof -
  from assms(1) obtain i n a cs where doc: "doc = Tag i n a cs"
    by (cases doc) simp_all
  have "strip s = []" if "s \<in> set (text_nodes (without_script_style doc))" for s
  proof -
    from that doc obtain c where c: "c \<in> set cs" "\<not> named [''script'', ''style''] c"
        "s \<in> set (text_nodes (without_script_style c))"
      by auto
    from assms(2) doc c(1) have "script_only c"
      by (simp add: list_all_iff)
    from script_only_blank [OF this c(2) c(3)] show ?thesis .
  qed
  then have "filter (\<lambda>s. s \<noteq> []) (map strip (text_nodes (without_script_style doc))) = []"
    by (simp add: filter_empty_conv)
  then show ?thesis
    by (simp add: visible_text_def)
qed

lemma get_without_script_style: "get (without_script_style c) k = get c k"
  by (cases c) simp_all

lemma named_without_script_style: "named names (without_script_style c) = named names c"
  by (cases c) simp_all

lemma has_src_without_script_style: "has_src (without_script_style c) = has_src c"
  by (simp add: has_src_def get_without_script_style)

lemma src_of_without_script_style: "src_of (without_script_style c) = src_of c"
  by (simp add: src_of_def get_without_script_style)

lemma no_tags_no_img:
  "list_all (\<lambda>c. \<not> is_tag c) cs \<Longrightarrow> c \<in> set cs \<Longrightarrow> img_elements c = [] \<and> \<not> named names c"
  by (cases c) (auto simp: list_all_iff)

lemma raw_text_no_img:
  assumes "raw_text_elements c" and "named [''script'', ''style''] c"
  shows "img_elements c = [] \<and> \<not> named [''img''] c"
proof -
  from assms(2) obtain i n a cs where c: "c = Tag i n a cs" "n \<in> set [''script'', ''style'']"
    by (cases c) simp_all
  with assms(1) have "list_all (\<lambda>d. \<not> is_tag d) cs"
    by auto
  then have "(if named [''img''] d then [d] else []) @ img_elements d = []" if "d \<in> set cs" for d
    using that no_tags_no_img by fastforce
  then have "img_elements c = []"
    by (simp add: c)
  moreover from c have "\<not> named [''img''] c"
    by auto
  ultimately show ?thesis by simp
qed

text \<open>In a document built by \<^verbatim>\<open>html.parser\<close>, removing the script and style elements
  removes no image.\<close>

lemma sources_without_script_style:
  "raw_text_elements t \<Longrightarrow>
     map src_of (filter has_src (img_elements (without_script_style t)))
       = map src_of (filter has_src (img_elements t))"
proof (induction t)
  case (Tag i n a cs)
  from Tag.prems have raw: "\<And>c. c \<in> set cs \<Longrightarrow> raw_text_elements c"
    by (simp add: list_all_iff)
  have "concat (map (\<lambda>c. map src_of (filter has_src
            ((if named [''img''] c then [c] else []) @ img_elements c)))
          (map without_script_style (filter (\<lambda>c. \<not> named [''script'', ''style''] c) ds)))
      = concat (map (\<lambda>c. map src_of (filter has_src
            ((if named [''img''] c then [c] else []) @ img_elements c))) ds)"
    if "set ds \<subseteq> set cs" for ds
    using that
  proof (induction ds)
    case Nil
    show ?case by simp
  next
    case (Cons d ds)
    then have d: "d \<in> set cs" and ds: "set ds \<subseteq> set cs"
      by simp_all
    show ?case
    proof (cases "named [''script'', ''style''] d")
      case True
      with raw_text_no_img [OF raw [OF d]] Cons.IH [OF ds] show ?thesis
        by simp
    next
      case False
      with Tag.IH [OF d raw [OF d]] Cons.IH [OF ds] show ?thesis
        by (simp add: named_without_script_style has_src_without_script_style
              src_of_without_script_style)
    qed
  qed
  from this [of cs] show ?case
    by (simp add: filter_concat map_concat o_def)
qed simp_all

text \<open>The example page, and what the libraries of the test double give for it.\<close>

lemma example_page_parsed: "parsed_document example_page"
  by code_simp

lemma example_page_raw_text: "raw_text_elements example_page"
  by code_simp

lemma example_page_text: "visible_text example_page = ''Hello world''"
  by code_simp

lemma example_page_sources: "image_sources example_page = [''../a.png'', ''../a.png'']"
  by code_simp

lemma example_page_imgs:
  "filter has_src (img_elements example_page)
     = [Tag 11 ''img'' [(''src'', ''../a.png'')] [], Tag 14 ''img'' [(''src'', ''../a.png'')] []]"
  by code_simp

lemma example_resolution:
  "urljoin no_checks ''https://x.com/b/c'' ''../a.png'' = Inr ''https://x.com/a.png''"
  by code_simp

lemma mock_get:
  "requests_get (mock_env (Inr r) body (Inr doc)) url 10 = Inr r"
  "BeautifulSoup (mock_env (Inr r) body (Inr doc)) markup = Inr doc"
  "requests_compat_urljoin (mock_env (Inr r) body (Inr doc)) = urljoin no_checks"
  "raise_for_status (mock_env (Inr r) body (Inr doc)) (ok_response u) = None"
  by (simp_all add: mock_env_def ok_response_def)

section \<open>The Extractor's results\<close>

text \<open>
  C2, as amended. Whenever the page fetch raises, \<^verbatim>\<open>extract_content_from_url\<close>
  returns a text that is "Error: " followed by the exception's message, and an empty image
  list: when the GET itself raises (network error, timeout), and when the status check on
  the response raises. Under the rule of the \<^verbatim>\<open>requests\<close> library, by which
  \<^verbatim>\<open>raise_for_status\<close> raises exactly on the status codes 400 to 599, every response
  with such a status gives the error result.
\<close>

theorem fetch_failure:
  "(requests_get E url 10 = Inl e
      \<longrightarrow> extract_content_from_url E url = (''Error: '' @ str_exn E e, []))
   \<and> (requests_get E url 10 = Inr response \<and> raise_for_status E response = Some e
      \<longrightarrow> extract_content_from_url E url = (''Error: '' @ str_exn E e, []))
   \<and> (requests_get E url 10 = Inr response
        \<and> 400 \<le> status_code response \<and> status_code response < 600
        \<and> (\<forall>r. (raise_for_status E r = None)
               = (\<not> (400 \<le> status_code r \<and> status_code r < 600)))
      \<longrightarrow> (\<exists>raised. raise_for_status E response = Some raised
             \<and> extract_content_from_url E url = (''Error: '' @ str_exn E raised, [])))
   \<and> (requests_get E url 10 = Inl e
        \<or> (requests_get E url 10 = Inr response \<and> raise_for_status E response = Some e)
      \<longrightarrow> prefix ''Error: '' (fst (extract_content_from_url E url))
          \<and> snd (extract_content_from_url E url) = [])"
proof -
  have get_raises: "extract_content_from_url E url = (''Error: '' @ str_exn E e, [])"
    if "requests_get E url 10 = Inl e"
    using that by (simp add: extract_content_from_url_def extract_try_def)
  have status_raises: "extract_content_from_url E url = (''Error: '' @ str_exn E x, [])"
    if "requests_get E url 10 = Inr response" "raise_for_status E response = Some x" for x
    using that by (simp add: extract_content_from_url_def extract_try_def)
  have by_code: "\<exists>raised. raise_for_status E response = Some raised
      \<and> extract_content_from_url E url = (''Error: '' @ str_exn E raised, [])"
    if got: "requests_get E url 10 = Inr response"
      and code: "400 \<le> status_code response" "status_code response < 600"
      and rule: "\<forall>r. (raise_for_status E r = None)
                   = (\<not> (400 \<le> status_code r \<and> status_code r < 600))"
  proof -
    from rule code have "raise_for_status E response \<noteq> None"
      by blast
    then obtain raised where "raise_for_status E response = Some raised"
      by blast
    with status_raises [OF got this] show ?thesis
      by blast
  qed
  have shape: "prefix ''Error: '' (fst (extract_content_from_url E url))
      \<and> snd (extract_content_from_url E url) = []"
    if "requests_get E url 10 = Inl e
        \<or> (requests_get E url 10 = Inr response \<and> raise_for_status E response = Some e)"
    using that get_raises status_raises by auto
  from get_raises status_raises by_code shape show ?thesis
    by blast
qed

theorem fetch_failure_witness:
  "requests_get (mock_env (Inl (Raised ''timed out'')) (Inl (Raised ''unused'')) (Inr example_page))
       ''https://x.invalid/'' 10 = Inl (Raised ''timed out'')
   \<and> extract_content_from_url
       (mock_env (Inl (Raised ''timed out'')) (Inl (Raised ''unused'')) (Inr example_page))
       ''https://x.invalid/'' = (''Error: timed out'', [])
   \<and> raise_for_status
       (mock_env (Inr \<lparr>status_code = 404, content = [], final_url = ''https://x.com/gone''\<rparr>)
          (Inl (Raised ''unused'')) (Inr example_page))
       \<lparr>status_code = 404, content = [], final_url = ''https://x.com/gone''\<rparr>
       = Some (Raised ''HTTPError'')
   \<and> extract_content_from_url
       (mock_env (Inr \<lparr>status_code = 404, content = [], final_url = ''https://x.com/gone''\<rparr>)
          (Inl (Raised ''unused'')) (Inr example_page))
       ''https://x.com/gone'' = (''Error: HTTPError'', [])
   \<and> status_code \<lparr>status_code = 503, content = [], final_url = ''https://x.com/busy''\<rparr> = 503
   \<and> extract_content_from_url
       (mock_env (Inr \<lparr>status_code = 503, content = [], final_url = ''https://x.com/busy''\<rparr>)
          (Inl (Raised ''unused'')) (Inr example_page))
       ''https://x.com/busy'' = (''Error: HTTPError'', [])"
proof -
  let ?down = "mock_env (Inl (Raised ''timed out'')) (Inl (Raised ''unused'')) (Inr example_page)"
  let ?gone = "\<lparr>status_code = 404, content = [], final_url = ''https://x.com/gone''\<rparr>"
  let ?missing = "mock_env (Inr ?gone) (Inl (Raised ''unused'')) (Inr example_page)"
  let ?busy = "\<lparr>status_code = 503, content = [], final_url = ''https://x.com/busy''\<rparr>"
  let ?overloaded = "mock_env (Inr ?busy) (Inl (Raised ''unused'')) (Inr example_page)"
  have get_down: "requests_get ?down ''https://x.invalid/'' 10 = Inl (Raised ''timed out'')"
    by (simp add: mock_env_def)
  have str_down: "str_exn ?down (Raised ''timed out'') = ''timed out''"
    by (simp add: mock_env_def)
  have get_gone: "requests_get ?missing ''https://x.com/gone'' 10 = Inr ?gone"
    by (simp add: mock_env_def)
  have status: "raise_for_status ?missing ?gone = Some (Raised ''HTTPError'')"
    by (simp add: mock_env_def)
  have str_gone: "str_exn ?missing (Raised ''HTTPError'') = ''HTTPError''"
    by (simp add: mock_env_def)
  have get_busy: "requests_get ?overloaded ''https://x.com/busy'' 10 = Inr ?busy"
    by (simp add: mock_env_def)
  have code: "400 \<le> status_code ?busy \<and> status_code ?busy < 600"
    by simp
  have rule: "\<forall>r. (raise_for_status ?overloaded r = None)
      = (\<not> (400 \<le> status_code r \<and> status_code r < 600))"
    by (simp add: mock_env_def)
  have raised_busy: "raise_for_status ?overloaded ?busy = Some (Raised ''HTTPError'')"
    by (simp add: mock_env_def)
  have str_busy: "str_exn ?overloaded (Raised ''HTTPError'') = ''HTTPError''"
    by (simp add: mock_env_def)
  from fetch_failure [of ?down "''https://x.invalid/''" "Raised ''timed out''" ?gone] get_down str_down
  have first: "extract_content_from_url ?down ''https://x.invalid/'' = (''Error: timed out'', [])"
    by simp
  from fetch_failure [of ?missing "''https://x.com/gone''" "Raised ''HTTPError''" ?gone]
    get_gone status str_gone
  have second: "extract_content_from_url ?missing ''https://x.com/gone'' = (''Error: HTTPError'', [])"
    by simp
  from fetch_failure [of ?overloaded "''https://x.com/busy''" "Raised ''HTTPError''" ?busy]
    get_busy code rule
  have "\<exists>raised. raise_for_status ?overloaded ?busy = Some raised
      \<and> extract_content_from_url ?overloaded ''https://x.com/busy''
          = (''Error: '' @ str_exn ?overloaded raised, [])"
    by blast
  with raised_busy str_busy
  have third: "extract_content_from_url ?overloaded ''https://x.com/busy'' = (''Error: HTTPError'', [])"
    by auto
  from get_down first status second third show ?thesis
    by simp
qed

text \<open>
  C2 as stated fails: a response with status 304 is not a 2xx response, the status check
  of the \<^verbatim>\<open>requests\<close> library does not raise on it, and the function parses the body
  and returns the page's text and images.
\<close>

theorem not_modified_counterexample:
  "status_code \<lparr>status_code = 304, content = ''<html>'', final_url = ''https://x.com/b/c''\<rparr> = 304
   \<and> requests_get
        (mock_env (Inr \<lparr>status_code = 304, content = ''<html>'', final_url = ''https://x.com/b/c''\<rparr>)
           (Inl (Raised ''unused'')) (Inr example_page)) ''https://x.com/b/c'' 10
      = Inr \<lparr>status_code = 304, content = ''<html>'', final_url = ''https://x.com/b/c''\<rparr>
   \<and> raise_for_status
        (mock_env (Inr \<lparr>status_code = 304, content = ''<html>'', final_url = ''https://x.com/b/c''\<rparr>)
           (Inl (Raised ''unused'')) (Inr example_page))
        \<lparr>status_code = 304, content = ''<html>'', final_url = ''https://x.com/b/c''\<rparr> = None
   \<and> extract_content_from_url
        (mock_env (Inr \<lparr>status_code = 304, content = ''<html>'', final_url = ''https://x.com/b/c''\<rparr>)
           (Inl (Raised ''unused'')) (Inr example_page)) ''https://x.com/b/c''
      = (''Hello world'', [''https://x.com/a.png'', ''https://x.com/a.png''])
   \<and> \<not> prefix ''Error: ''
        (fst (extract_content_from_url
          (mock_env (Inr \<lparr>status_code = 304, content = ''<html>'', final_url = ''https://x.com/b/c''\<rparr>)
             (Inl (Raised ''unused'')) (Inr example_page)) ''https://x.com/b/c''))
   \<and> snd (extract_content_from_url
          (mock_env (Inr \<lparr>status_code = 304, content = ''<html>'', final_url = ''https://x.com/b/c''\<rparr>)
             (Inl (Raised ''unused'')) (Inr example_page)) ''https://x.com/b/c'') \<noteq> []"
  by code_simp

text \<open>
  C6, as amended. For every page that is fetched and parsed and whose image sources all
  resolve, the returned text is the visible text of the document: the script and style
  elements removed, the remaining text nodes stripped, the non-empty ones joined with
  single spaces in document order. In particular the text is empty for a page whose only
  content is inside script tags.
\<close>

theorem extracted_text:
  assumes "requests_get E url 10 = Inr response"
    and "raise_for_status E response = None"
    and "BeautifulSoup E (content response) = Inr doc"
    and "parsed_document doc"
    and "map (requests_compat_urljoin E url) (image_sources doc) = map Inr resolved"
  shows "fst (extract_content_from_url E url) = visible_text doc
     \<and> (list_all script_only (contents doc) \<longrightarrow> fst (extract_content_from_url E url) = [])"
proof -
  have "extract_content_from_url E url = (visible_text doc, resolved)"
    by (simp add: extract_content_from_url_def extract_try_success [OF assms])
  moreover from assms(4) have "is_tag doc"
    by (simp add: parsed_document_def)
  ultimately show ?thesis
    by (simp add: script_only_no_text)
qed

theorem extracted_text_witness:
  "fst (extract_content_from_url
          (mock_env (Inr (ok_response ''https://x.com/b/c'')) (Inl (Raised ''unused''))
             (Inr example_page)) ''https://x.com/b/c'') = ''Hello world''
   \<and> list_all script_only (contents script_page)
   \<and> fst (extract_content_from_url
          (mock_env (Inr (ok_response ''https://x.com/s'')) (Inl (Raised ''unused''))
             (Inr script_page)) ''https://x.com/s'') = []"
proof -
  let ?E = "mock_env (Inr (ok_response ''https://x.com/b/c'')) (Inl (Raised ''unused''))
              (Inr example_page)"
  let ?S = "mock_env (Inr (ok_response ''https://x.com/s'')) (Inl (Raised ''unused''))
              (Inr script_page)"
  have sources: "map (requests_compat_urljoin ?E ''https://x.com/b/c'') (image_sources example_page)
      = map Inr [''https://x.com/a.png'', ''https://x.com/a.png'']"
    by (simp add: mock_get example_page_sources example_resolution)
  from extracted_text [of ?E "''https://x.com/b/c''" "ok_response ''https://x.com/b/c''" example_page,
      OF mock_get(1) mock_get(4) mock_get(2) example_page_parsed sources]
  have first: "fst (extract_content_from_url ?E ''https://x.com/b/c'') = ''Hello world''"
    by (simp add: example_page_text)
  have parsed: "parsed_document script_page"
    by code_simp
  have only: "list_all script_only (contents script_page)"
    by code_simp
  have none: "map (requests_compat_urljoin ?S ''https://x.com/s'') (image_sources script_page)
      = map Inr []"
    by code_simp
  from extracted_text [of ?S "''https://x.com/s''" "ok_response ''https://x.com/s''" script_page,
      OF mock_get(1) mock_get(4) mock_get(2) parsed none] only
  have second: "fst (extract_content_from_url ?S ''https://x.com/s'') = []"
    by blast
  from first only second show ?thesis
    by simp
qed

text \<open>
  C6 as stated fails: the page of the example below is fetched with status 200 and parsed,
  its visible text is "Hello", but the source of its image does not resolve (the URL
  resolution raises), and the returned text is the error message.
\<close>

theorem extracted_text_counterexample:
  "requests_get (mock_env (Inr (ok_response ''https://x.com/b/c'')) (Inl (Raised ''unused''))
       (Inr malformed_src_page)) ''https://x.com/b/c'' 10 = Inr (ok_response ''https://x.com/b/c'')
   \<and> raise_for_status (mock_env (Inr (ok_response ''https://x.com/b/c'')) (Inl (Raised ''unused''))
       (Inr malformed_src_page)) (ok_response ''https://x.com/b/c'') = None
   \<and> parsed_document malformed_src_page
   \<and> visible_text malformed_src_page = ''Hello''
   \<and> urljoin no_checks ''https://x.com/b/c'' ''//['' = Inl (ValueError ''Invalid IPv6 URL'')
   \<and> fst (extract_content_from_url
          (mock_env (Inr (ok_response ''https://x.com/b/c'')) (Inl (Raised ''unused''))
             (Inr malformed_src_page)) ''https://x.com/b/c'') = ''Error: Invalid IPv6 URL''
   \<and> fst (extract_content_from_url
          (mock_env (Inr (ok_response ''https://x.com/b/c'')) (Inl (Raised ''unused''))
             (Inr malformed_src_page)) ''https://x.com/b/c'') \<noteq> visible_text malformed_src_page"
  by code_simp

text \<open>
  C8, as amended. For every page that is fetched and parsed and whose image sources all
  resolve, the image list holds the resolved sources in document order, one entry for each
  \<^verbatim>\<open>img\<close> element with a non-empty \<^verbatim>\<open>src\<close> that remains once the script and style
  elements are removed; elements without \<^verbatim>\<open>src\<close> give nothing, equal URLs are kept and
  the count is not capped. In a document as \<^verbatim>\<open>html.parser\<close> builds it, these are all
  the \<^verbatim>\<open>img\<close> elements of the page.
\<close>

theorem image_list:
  assumes "requests_get E url 10 = Inr response"
    and "raise_for_status E response = None"
    and "BeautifulSoup E (content response) = Inr doc"
    and "parsed_document doc"
    and "map (requests_compat_urljoin E url) (image_sources doc) = map Inr resolved"
  shows "snd (extract_content_from_url E url) = resolved
     \<and> length (snd (extract_content_from_url E url))
         = length (filter has_src (img_elements (without_script_style doc)))
     \<and> (raw_text_elements doc \<longrightarrow>
          image_sources doc = map src_of (filter has_src (img_elements doc)))"
proof -
  have result: "extract_content_from_url E url = (visible_text doc, resolved)"
    by (simp add: extract_content_from_url_def extract_try_success [OF assms])
  from assms(5) have "length (image_sources doc) = length resolved"
    by (metis length_map)
  then have "length resolved = length (filter has_src (img_elements (without_script_style doc)))"
    by (simp add: image_sources_def)
  with result show ?thesis
    by (simp add: image_sources_def sources_without_script_style)
qed

theorem image_list_witness:
  "snd (extract_content_from_url
          (mock_env (Inr (ok_response ''https://x.com/b/c'')) (Inl (Raised ''unused''))
             (Inr example_page)) ''https://x.com/b/c'')
     = [''https://x.com/a.png'', ''https://x.com/a.png'']
   \<and> filter has_src (img_elements example_page)
     = [Tag 11 ''img'' [(''src'', ''../a.png'')] [], Tag 14 ''img'' [(''src'', ''../a.png'')] []]
   \<and> raw_text_elements example_page
   \<and> image_sources example_page = map src_of (filter has_src (img_elements example_page))"
proof -
  let ?E = "mock_env (Inr (ok_response ''https://x.com/b/c'')) (Inl (Raised ''unused''))
              (Inr example_page)"
  have sources: "map (requests_compat_urljoin ?E ''https://x.com/b/c'') (image_sources example_page)
      = map Inr [''https://x.com/a.png'', ''https://x.com/a.png'']"
    by (simp add: mock_get example_page_sources example_resolution)
  from image_list [of ?E "''https://x.com/b/c''" "ok_response ''https://x.com/b/c''" example_page,
      OF mock_get(1) mock_get(4) mock_get(2) example_page_parsed sources]
    example_page_raw_text example_page_imgs
  show ?thesis
    by simp
qed

text \<open>
  C8 as stated fails: the page of the example is fetched with status 200 and has one
  \<^verbatim>\<open>img\<close> element with a non-empty \<^verbatim>\<open>src\<close>, but that source does not resolve, and
  the image list is empty.
\<close>

theorem image_list_counterexample:
  "requests_get (mock_env (Inr (ok_response ''https://x.com/b/c'')) (Inl (Raised ''unused''))
       (Inr malformed_src_page)) ''https://x.com/b/c'' 10 = Inr (ok_response ''https://x.com/b/c'')
   \<and> raise_for_status (mock_env (Inr (ok_response ''https://x.com/b/c'')) (Inl (Raised ''unused''))
       (Inr malformed_src_page)) (ok_response ''https://x.com/b/c'') = None
   \<and> filter has_src (img_elements malformed_src_page) = [Tag 3 ''img'' [(''src'', ''//['')] []]
   \<and> snd (extract_content_from_url
          (mock_env (Inr (ok_response ''https://x.com/b/c'')) (Inl (Raised ''unused''))
             (Inr malformed_src_page)) ''https://x.com/b/c'') = []
   \<and> length (snd (extract_content_from_url
          (mock_env (Inr (ok_response ''https://x.com/b/c'')) (Inl (Raised ''unused''))
             (Inr malformed_src_page)) ''https://x.com/b/c''))
       \<noteq> length (filter has_src (img_elements malformed_src_page))"
  by code_simp

text \<open>
  C1, as amended. Every \<^verbatim>\<open>img\<close> element with a non-empty \<^verbatim>\<open>src\<close> met during the
  extraction has its \<^verbatim>\<open>src\<close> resolved against the URL that was passed to
  \<^verbatim>\<open>extract_content_from_url\<close> (the requested URL, whatever the redirects); when all
  these resolutions succeed, their results are the entries of the image list, in order.
\<close>

theorem images_resolved_against_requested_url:
  assumes "requests_get E url 10 = Inr response"
    and "raise_for_status E response = None"
    and "BeautifulSoup E (content response) = Inr doc"
    and "parsed_document doc"
    and "\<forall>src \<in> set (image_sources doc). \<exists>absolute. requests_compat_urljoin E url src = Inr absolute"
  shows "list_all2 (\<lambda>src absolute. requests_compat_urljoin E url src = Inr absolute)
           (image_sources doc) (snd (extract_content_from_url E url))"
proof -
  define resolved where
    "resolved = map (\<lambda>src. case requests_compat_urljoin E url src of Inr u \<Rightarrow> u | Inl e \<Rightarrow> [])
                  (image_sources doc)"
  have each: "requests_compat_urljoin E url src
        = Inr (case requests_compat_urljoin E url src of Inr u \<Rightarrow> u | Inl e \<Rightarrow> [])"
    if "src \<in> set (image_sources doc)" for src
    using assms(5) that by fastforce
  then have all: "map (requests_compat_urljoin E url) (image_sources doc) = map Inr resolved"
    by (simp add: resolved_def)
  have "extract_content_from_url E url = (visible_text doc, resolved)"
    by (simp add: extract_content_from_url_def extract_try_success [OF assms(1-4) all])
  moreover have "list_all2 (\<lambda>src absolute. requests_compat_urljoin E url src = Inr absolute)
                   (image_sources doc) resolved"
    using each by (simp add: resolved_def list_all2_conv_all_nth)
  ultimately show ?thesis
    by simp
qed

theorem images_resolved_against_requested_url_witness:
  "image_sources example_page = [''../a.png'', ''../a.png'']
   \<and> requests_compat_urljoin
        (mock_env (Inr (ok_response ''https://y.org/p/q'')) (Inl (Raised ''unused''))
           (Inr example_page)) ''https://x.com/b/c'' ''../a.png'' = Inr ''https://x.com/a.png''
   \<and> snd (extract_content_from_url
          (mock_env (Inr (ok_response ''https://y.org/p/q'')) (Inl (Raised ''unused''))
             (Inr example_page)) ''https://x.com/b/c'')
     = [''https://x.com/a.png'', ''https://x.com/a.png'']"
proof -
  let ?E = "mock_env (Inr (ok_response ''https://y.org/p/q'')) (Inl (Raised ''unused''))
              (Inr example_page)"
  have one: "requests_compat_urljoin ?E ''https://x.com/b/c'' ''../a.png'' = Inr ''https://x.com/a.png''"
    by (simp add: mock_get example_resolution)
  then have all: "\<forall>src \<in> set (image_sources example_page).
      \<exists>absolute. requests_compat_urljoin ?E ''https://x.com/b/c'' src = Inr absolute"
    by (simp add: example_page_sources)
  from images_resolved_against_requested_url
      [of ?E "''https://x.com/b/c''" "ok_response ''https://y.org/p/q''" example_page,
       OF mock_get(1) mock_get(4) mock_get(2) example_page_parsed all]
  have "list_all2 (\<lambda>src absolute. requests_compat_urljoin ?E ''https://x.com/b/c'' src = Inr absolute)
          [''../a.png'', ''../a.png''] (snd (extract_content_from_url ?E ''https://x.com/b/c''))"
    by (simp add: example_page_sources)
  then have "snd (extract_content_from_url ?E ''https://x.com/b/c'')
      = [''https://x.com/a.png'', ''https://x.com/a.png'']"
    by (auto simp: list_all2_Cons1 one)
  with one example_page_sources show ?thesis
    by simp
qed

text \<open>
  C1 as stated fails: the request for \<^verbatim>\<open>https://x.com/b/c\<close> is redirected, the final
  URL of the response is \<^verbatim>\<open>https://y.org/p/q\<close>, and the images are resolved against
  the requested URL, not against the final one.
\<close>

theorem final_url_counterexample:
  "final_url (ok_response ''https://y.org/p/q'') = ''https://y.org/p/q''
   \<and> requests_get (mock_env (Inr (ok_response ''https://y.org/p/q'')) (Inl (Raised ''unused''))
       (Inr example_page)) ''https://x.com/b/c'' 10 = Inr (ok_response ''https://y.org/p/q'')
   \<and> urljoin no_checks ''https://y.org/p/q'' ''../a.png'' = Inr ''https://y.org/a.png''
   \<and> snd (extract_content_from_url
          (mock_env (Inr (ok_response ''https://y.org/p/q'')) (Inl (Raised ''unused''))
             (Inr example_page)) ''https://x.com/b/c'')
     = [''https://x.com/a.png'', ''https://x.com/a.png'']
   \<and> snd (extract_content_from_url
          (mock_env (Inr (ok_response ''https://y.org/p/q'')) (Inl (Raised ''unused''))
             (Inr example_page)) ''https://x.com/b/c'')
     \<noteq> [''https://y.org/a.png'', ''https://y.org/a.png'']"
  by code_simp

section \<open>URL resolution\<close>

text \<open>
  C9. Resolving the relative source \<^verbatim>\<open>../a.png\<close> against the page URL
  \<^verbatim>\<open>https://x.com/b/c\<close> yields exactly \<^verbatim>\<open>https://x.com/a.png\<close>.
\<close>

theorem urljoin_example:
  "urljoin L ''https://x.com/b/c'' ''../a.png'' = Inr ''https://x.com/a.png''"
  by (simp add: urljoin_def urlparse_def urlsplit_def urlsplit_rest_def has_scheme_def
        splitnetloc_def checknetloc_def isascii_def lower_def scheme_chars_def ascii_alpha_def
        ascii_lowercase_def ascii_uppercase_def c0_control_or_space_def unsafe_url_byte_def
        uses_relative_def uses_netloc_def uses_params_def urlunparse_def urlunsplit_def
        join_paths_def split_once_def)

theorem urljoin_example_witness:
  "urljoin no_checks ''https://x.com/b/c'' ''../a.png'' = Inr ''https://x.com/a.png''
   \<and> requests_compat_urljoin
        (mock_env (Inr (ok_response ''https://x.com/b/c'')) (Inl (Raised ''unused''))
           (Inr example_page)) ''https://x.com/b/c'' ''../a.png'' = Inr ''https://x.com/a.png''"
  using urljoin_example [of no_checks] by (simp add: mock_env_def)

end
